theory Spec2Isabelle
  imports Complex_Main
begin

section \<open>Blocks and block types\<close>

text \<open>
  The keys of \<open>BLOCK_TYPES\<close>, in the order of the object literal (which is the order
  \<open>Object.keys\<close> returns them in).
\<close>

datatype BlockType =
  grass | dirt | stone | wood | leaves | planks | bricks | glass | wool | flower | torch | stairs


text \<open>
  \<open>interface Block\<close>. The three coordinates have the TypeScript type \<open>number\<close>; they are
  modelled as reals (IEEE rounding, infinities and NaN are not modelled). The generator and
  the placement handler only ever store integer values in them.
\<close>

record Block =
  block_x :: real
  block_y :: real
  block_z :: real
  block_type :: BlockType

definition coord :: "Block \<Rightarrow> real \<times> real \<times> real" where
  "coord b = (block_x b, block_y b, block_z b)"

definition RENDER_DISTANCE :: real where
  "RENDER_DISTANCE = 8"

definition WORLD_SIZE :: int where
  "WORLD_SIZE = 32"

section \<open>The block store: \<open>handleBlockRemove\<close> and \<open>handleBlockAdd\<close>\<close>

text \<open>
  The store is the React state \<open>blocks\<close>, an array of blocks. \<open>handleBlockRemove block\<close> is
  the updater \<open>prev => prev.filter(...)\<close>.
\<close>

definition handleBlockRemove :: "Block \<Rightarrow> Block list \<Rightarrow> Block list" where
  "handleBlockRemove block prev =
     filter (\<lambda>b. \<not> (block_x b = block_x block \<and> block_y b = block_y block \<and> block_z b = block_z block)) prev"

text \<open>
  \<open>handleBlockAdd\<close> tests occupancy on \<open>blocks\<close>, the state the handler was created with, and
  then appends to \<open>prev\<close>, the state the updater is applied to.
\<close>

definition handleBlockAdd :: "Block list \<Rightarrow> real \<Rightarrow> real \<Rightarrow> real \<Rightarrow> BlockType \<Rightarrow> Block list \<Rightarrow> Block list" where
  "handleBlockAdd blocks x y z type prev =
     (let exists = list_ex (\<lambda>b. block_x b = x \<and> block_y b = y \<and> block_z b = z) blocks
      in if \<not> exists
         then prev @ [\<lparr>block_x = x, block_y = y, block_z = z, block_type = type\<rparr>]
         else prev)"

text \<open>
  \<open>remove p\<close> is \<open>handleBlockRemove\<close> called with a block at \<open>p\<close>; the handler reads nothing of
  the block but its coordinates, and nothing of the store but \<open>prev\<close>.
\<close>

definition remove :: "real \<times> real \<times> real \<Rightarrow> Block list \<Rightarrow> Block list" where
  "remove p store =
     (case p of (x, y, z) \<Rightarrow>
        handleBlockRemove \<lparr>block_x = x, block_y = y, block_z = z, block_type = grass\<rparr> store)"

definition occupied :: "Block list \<Rightarrow> real \<times> real \<times> real \<Rightarrow> bool" where
  "occupied store p = list_ex (\<lambda>b. coord b = p) store"

text \<open>The uniqueness invariant: no two entries of the store have the same coordinate.\<close>

definition unique_coords :: "Block list \<Rightarrow> bool" where
  "unique_coords store = distinct (map coord store)"

section \<open>Visibility: \<open>visibleBlocks\<close>\<close>

record Vector3 =
  vx :: real
  vy :: real
  vz :: real

definition distance :: "Block \<Rightarrow> Vector3 \<Rightarrow> real" where
  "distance block playerPos =
     sqrt ((block_x block - vx playerPos)\<^sup>2 + (block_y block - vy playerPos)\<^sup>2
           + (block_z block - vz playerPos)\<^sup>2)"

definition visibleBlocks :: "Block list \<Rightarrow> Vector3 \<Rightarrow> Block list" where
  "visibleBlocks blocks playerPos = filter (\<lambda>block. distance block playerPos < RENDER_DISTANCE) blocks"

section \<open>World generation: \<open>generateWorld\<close>\<close>

text \<open>
  \<open>createNoise2D()\<close> and \<open>Math.random\<close> come from outside the component; the noise field is
  a parameter \<open>noise2D\<close>, and the two random draws of a column are the parameters \<open>r1\<close> and
  \<open>r2\<close> (both draws are always made: \<open>Math.random() > c\<close> is the left operand of \<open>&&\<close>).
\<close>

definition columnHeight :: "(real \<Rightarrow> real \<Rightarrow> real) \<Rightarrow> int \<Rightarrow> int \<Rightarrow> int" where
  "columnHeight noise2D x z = \<lfloor>noise2D (of_int x * 0.1) (of_int z * 0.1) * 4 + 3\<rfloor>"

text \<open>The loop \<open>for (let y = 0; y <= height; y++)\<close>: the terrain part of a column.\<close>

definition terrainType :: "int \<Rightarrow> int \<Rightarrow> BlockType" where
  "terrainType height y = (if y = height then grass else if y \<ge> height - 2 then dirt else stone)"

definition terrain :: "int \<Rightarrow> int \<Rightarrow> int \<Rightarrow> Block list" where
  "terrain x z height =
     map (\<lambda>y. \<lparr>block_x = of_int x, block_y = of_int y, block_z = of_int z,
                block_type = terrainType height y\<rparr>) [0..height]"

definition flowerBlocks :: "int \<Rightarrow> int \<Rightarrow> int \<Rightarrow> real \<Rightarrow> Block list" where
  "flowerBlocks x z height r1 =
     (if r1 > 0.95 \<and> height > 2
      then [\<lparr>block_x = of_int x, block_y = of_int (height + 1), block_z = of_int z, block_type = flower\<rparr>]
      else [])"

definition trunk :: "int \<Rightarrow> int \<Rightarrow> int \<Rightarrow> Block list" where
  "trunk x z height =
     map (\<lambda>ty. \<lparr>block_x = of_int x, block_y = of_int ty, block_z = of_int z, block_type = wood\<rparr>)
       [height + 1..height + 4]"

definition canopy :: "int \<Rightarrow> int \<Rightarrow> int \<Rightarrow> Block list" where
  "canopy x z height =
     concat (map (\<lambda>lx. concat (map (\<lambda>lz. concat (map (\<lambda>ly.
       if \<bar>lx\<bar> + \<bar>lz\<bar> < 4
       then [\<lparr>block_x = of_int (x + lx), block_y = of_int (height + 4 + ly),
              block_z = of_int (z + lz), block_type = leaves\<rparr>]
       else []) [0..1])) [-2..2])) [-2..2])"

definition treeBlocks :: "int \<Rightarrow> int \<Rightarrow> int \<Rightarrow> real \<Rightarrow> Block list" where
  "treeBlocks x z height r2 =
     (if r2 > 0.98 \<and> height > 2 then trunk x z height @ canopy x z height else [])"

definition generateColumn :: "(real \<Rightarrow> real \<Rightarrow> real) \<Rightarrow> int \<Rightarrow> int \<Rightarrow> real \<Rightarrow> real \<Rightarrow> Block list" where
  "generateColumn noise2D x z r1 r2 =
     (let height = columnHeight noise2D x z
      in terrain x z height @ flowerBlocks x z height r1 @ treeBlocks x z height r2)"

text \<open>
  The two outer loops. \<open>random n\<close> is the value of the \<open>n\<close>-th call of \<open>Math.random\<close>
  (counted from 0); the column \<open>(x, z)\<close> is the \<open>(x + 32) * 64 + (z + 32)\<close>-th one visited and
  makes two calls.
\<close>

definition drawIndex :: "int \<Rightarrow> int \<Rightarrow> nat" where
  "drawIndex x z = nat (2 * ((x + WORLD_SIZE) * (2 * WORLD_SIZE) + (z + WORLD_SIZE)))"

definition generateWorld :: "(real \<Rightarrow> real \<Rightarrow> real) \<Rightarrow> (nat \<Rightarrow> real) \<Rightarrow> Block list" where
  "generateWorld noise2D random =
     concat (map (\<lambda>x. concat (map (\<lambda>z.
       generateColumn noise2D x z (random (drawIndex x z)) (random (drawIndex x z + 1)))
       [- WORLD_SIZE..WORLD_SIZE - 1])) [- WORLD_SIZE..WORLD_SIZE - 1])"

text \<open>The three types the terrain loop emits; flowers and trees use none of them.\<close>

definition isTerrain :: "Block \<Rightarrow> bool" where
  "isTerrain b \<longleftrightarrow> block_type b = grass \<or> block_type b = dirt \<or> block_type b = stone"

section \<open>Player kinematics: the \<open>useFrame\<close> callback of \<open>PlayerController\<close>\<close>

record Keys =
  forward :: bool
  backward :: bool
  left :: bool
  right :: bool
  jump :: bool

record Player =
  position :: Vector3
  velocity :: Vector3

text \<open>
  \<open>direction.set(0, 0, 0)\<close> followed by the four \<open>if\<close> statements: each flag that is set
  assigns its component.
\<close>

definition intent :: "Keys \<Rightarrow> Vector3" where
  "intent keys =
     (let d0 = \<lparr>vx = 0, vy = 0, vz = 0\<rparr>;
          d1 = (if forward keys then d0\<lparr>vz := - 1\<rparr> else d0);
          d2 = (if backward keys then d1\<lparr>vz := 1\<rparr> else d1);
          d3 = (if left keys then d2\<lparr>vx := - 1\<rparr> else d2);
          d4 = (if right keys then d3\<lparr>vx := 1\<rparr> else d3)
      in d4)"

text \<open>
  Modelled from the spec: \<open>Vector3.normalize\<close> of three.js, which is not part of the
  repository. The spec says: normalize the intent vector (unit length, or zero if no input).
\<close>

definition normalize :: "Vector3 \<Rightarrow> Vector3" where
  "normalize v =
     (let l = sqrt ((vx v)\<^sup>2 + (vy v)\<^sup>2 + (vz v)\<^sup>2);
          s = (if l = 0 then 1 else l)
      in \<lparr>vx = vx v / s, vy = vy v / s, vz = vz v / s\<rparr>)"

definition vadd :: "Vector3 \<Rightarrow> Vector3 \<Rightarrow> Vector3" where
  "vadd a b = \<lparr>vx = vx a + vx b, vy = vy a + vy b, vz = vz a + vz b\<rparr>"

text \<open>
  Lines 146 to 165: the velocity of this tick. \<open>applyEuler\<close> stands for
  \<open>v \<mapsto> v.applyEuler(camera.rotation)\<close>, the rotation by the camera's current facing.
\<close>

definition tickVelocity :: "(Vector3 \<Rightarrow> Vector3) \<Rightarrow> Keys \<Rightarrow> real \<Rightarrow> Player \<Rightarrow> Vector3" where
  "tickVelocity applyEuler keys delta p =
     (let speed = 5;
          d1 = normalize (intent keys);
          d2 = applyEuler d1;
          d3 = d2\<lparr>vy := 0\<rparr>;
          v1 = (velocity p)\<lparr>vx := vx d3 * speed * delta, vz := vz d3 * speed * delta\<rparr>;
          v2 = (if jump keys \<and> vy (position p) \<le> 5 then v1\<lparr>vy := 0.2\<rparr> else v1);
          v3 = v2\<lparr>vy := vy v2 - 9.8 * delta * 0.1\<rparr>
      in v3)"

text \<open>Lines 167 to 172: integration and the ground constraint.\<close>

definition integrate :: "Vector3 \<Rightarrow> Player \<Rightarrow> Player" where
  "integrate v p =
     (let pos = vadd (position p) v
      in if vy pos < 5
         then \<lparr>position = pos\<lparr>vy := 5\<rparr>, velocity = v\<lparr>vy := 0\<rparr>\<rparr>
         else \<lparr>position = pos, velocity = v\<rparr>)"

definition useFrame :: "(Vector3 \<Rightarrow> Vector3) \<Rightarrow> Keys \<Rightarrow> real \<Rightarrow> Player \<Rightarrow> Player" where
  "useFrame applyEuler keys delta p = integrate (tickVelocity applyEuler keys delta p) p"

section \<open>Selection: the hotbar\<close>










section \<open>Properties of the block store\<close>

lemma occupied_iff:
  "occupied store (x, y, z) \<longleftrightarrow> list_ex (\<lambda>b. block_x b = x \<and> block_y b = y \<and> block_z b = z) store"
  by (simp add: occupied_def coord_def)

lemma not_occupied_iff: "\<not> occupied store p \<longleftrightarrow> (\<forall>b \<in> set store. coord b \<noteq> p)"
  by (auto simp: occupied_def list_ex_iff)

lemma remove_filter: "remove p store = filter (\<lambda>b. coord b \<noteq> p) store"
  by (cases p) (auto simp: remove_def handleBlockRemove_def coord_def intro: filter_cong)

text \<open>
  \<open>handleBlockAdd\<close> in general: the occupancy test reads \<open>blocks\<close>, the append goes to \<open>prev\<close>.
\<close>

lemma handleBlockAdd_cases:
  "handleBlockAdd blocks x y z T prev =
     (if occupied blocks (x, y, z) then prev
      else prev @ [\<lparr>block_x = x, block_y = y, block_z = z, block_type = T\<rparr>])"
  by (simp add: handleBlockAdd_def occupied_iff)

text \<open>
  When the handler was created with the state it is applied to, it is a no-op on an occupied
  position, appends one block on a free one, and keeps the uniqueness invariant.
\<close>

lemma handleBlockAdd_current:
  "handleBlockAdd store x y z T store =
     (if occupied store (x, y, z) then store
      else store @ [\<lparr>block_x = x, block_y = y, block_z = z, block_type = T\<rparr>])"
  by (rule handleBlockAdd_cases)

lemma handleBlockAdd_current_unique:
  "unique_coords store \<Longrightarrow> unique_coords (handleBlockAdd store x y z T store)"
  by (auto simp: unique_coords_def handleBlockAdd_def list_ex_iff coord_def image_iff)

lemma remove_unique: "unique_coords store \<Longrightarrow> unique_coords (remove p store)"
  by (simp add: remove_filter unique_coords_def distinct_map_filter)

text \<open>
  C5. The claim is that adding on an occupied position leaves the store as it is. The handler
  tests occupancy on \<open>blocks\<close>, the state of the render that created it, not on \<open>prev\<close>, the
  state its updater appends to. Called twice for the position \<open>(0, 1, 0)\<close> before a new render
  (so both calls test the same \<open>blocks\<close>, which holds one grass block at the origin), the
  second call finds \<open>(0, 1, 0)\<close> occupied in the store and still appends: the store gets two
  blocks on that coordinate.
\<close>

theorem handleBlockAdd_stale_blocks:
  "occupied (handleBlockAdd [\<lparr>block_x = 0, block_y = 0, block_z = 0, block_type = grass\<rparr>] 0 1 0 stone
               [\<lparr>block_x = 0, block_y = 0, block_z = 0, block_type = grass\<rparr>]) (0, 1, 0)
   \<and> handleBlockAdd [\<lparr>block_x = 0, block_y = 0, block_z = 0, block_type = grass\<rparr>] 0 1 0 stone
        (handleBlockAdd [\<lparr>block_x = 0, block_y = 0, block_z = 0, block_type = grass\<rparr>] 0 1 0 stone
           [\<lparr>block_x = 0, block_y = 0, block_z = 0, block_type = grass\<rparr>])
       = [\<lparr>block_x = 0, block_y = 0, block_z = 0, block_type = grass\<rparr>,
          \<lparr>block_x = 0, block_y = 1, block_z = 0, block_type = stone\<rparr>,
          \<lparr>block_x = 0, block_y = 1, block_z = 0, block_type = stone\<rparr>]
   \<and> \<not> unique_coords
        (handleBlockAdd [\<lparr>block_x = 0, block_y = 0, block_z = 0, block_type = grass\<rparr>] 0 1 0 stone
          (handleBlockAdd [\<lparr>block_x = 0, block_y = 0, block_z = 0, block_type = grass\<rparr>] 0 1 0 stone
             [\<lparr>block_x = 0, block_y = 0, block_z = 0, block_type = grass\<rparr>]))"
  by (simp add: handleBlockAdd_def occupied_def coord_def unique_coords_def)

text \<open>
  C6. \<open>remove p\<close> keeps exactly the blocks whose coordinate differs from \<open>p\<close>, in their order:
  no block at \<open>p\<close> is left, every block at another coordinate occurs as often as before, and
  a store with no block at \<open>p\<close> is returned unchanged.
\<close>

theorem remove_frame:
  "handleBlockRemove block store = remove (coord block) store
   \<and> remove p store = filter (\<lambda>b. coord b \<noteq> p) store
   \<and> (\<forall>b \<in> set (remove p store). coord b \<noteq> p)
   \<and> (\<forall>b. coord b \<noteq> p \<longrightarrow> count_list (remove p store) b = count_list store b)
   \<and> (\<not> occupied store p \<longrightarrow> remove p store = store)"
proof -
  have cnt: "coord b \<noteq> p \<Longrightarrow> count_list (filter (\<lambda>b. coord b \<noteq> p) xs) b = count_list xs b" for b xs
    by (induction xs) auto
  have "\<not> occupied store p \<Longrightarrow> filter (\<lambda>b. coord b \<noteq> p) store = store"
    by (simp add: not_occupied_iff)
  moreover have "handleBlockRemove block store = remove (coord block) store"
    by (simp add: remove_def coord_def handleBlockRemove_def)
  ultimately show ?thesis using cnt by (simp add: remove_filter)
qed

theorem remove_frame_witness:
  "remove (0, 0, 0) [\<lparr>block_x = 0, block_y = 0, block_z = 0, block_type = grass\<rparr>,
                     \<lparr>block_x = 0, block_y = 1, block_z = 0, block_type = dirt\<rparr>]
     = [\<lparr>block_x = 0, block_y = 1, block_z = 0, block_type = dirt\<rparr>]
   \<and> remove (5, 5, 5) [\<lparr>block_x = 0, block_y = 0, block_z = 0, block_type = grass\<rparr>,
                       \<lparr>block_x = 0, block_y = 1, block_z = 0, block_type = dirt\<rparr>]
     = [\<lparr>block_x = 0, block_y = 0, block_z = 0, block_type = grass\<rparr>,
        \<lparr>block_x = 0, block_y = 1, block_z = 0, block_type = dirt\<rparr>]"
  using remove_frame [of _ "[\<lparr>block_x = 0, block_y = 0, block_z = 0, block_type = grass\<rparr>,
                     \<lparr>block_x = 0, block_y = 1, block_z = 0, block_type = dirt\<rparr>]" "(0, 0, 0)"]
        remove_frame [of _ "[\<lparr>block_x = 0, block_y = 0, block_z = 0, block_type = grass\<rparr>,
                     \<lparr>block_x = 0, block_y = 1, block_z = 0, block_type = dirt\<rparr>]" "(5, 5, 5)"]
  by (simp add: occupied_def coord_def)

section \<open>Uniqueness of coordinates after world generation\<close>

lemma distinct_map_concat_elem:
  "distinct (map f (concat xss)) \<Longrightarrow> xs \<in> set xss \<Longrightarrow> distinct (map f xs)"
  by (induction xss) auto

lemma unique_coords_append_disjoint:
  "unique_coords (xs @ ys) \<Longrightarrow> a \<in> set xs \<Longrightarrow> b \<in> set ys \<Longrightarrow> coord a \<noteq> coord b"
  by (auto simp: unique_coords_def)

text \<open>The last trunk block (\<open>ty = height + 4\<close>) and the leaf with \<open>lx = lz = ly = 0\<close>.\<close>

lemma trunk_top:
  "\<lparr>block_x = of_int x, block_y = of_int (height + 4), block_z = of_int z, block_type = wood\<rparr>
     \<in> set (trunk x z height)"
  unfolding trunk_def
  by (simp add: image_iff) (rule bexI[of _ "height + 4"], simp_all)

lemma canopy_centre:
  "\<lparr>block_x = of_int x, block_y = of_int (height + 4), block_z = of_int z, block_type = leaves\<rparr>
     \<in> set (canopy x z height)"
  unfolding canopy_def by simp

lemma tree_not_unique: "\<not> unique_coords (trunk x z height @ canopy x z height)"
proof
  assume "unique_coords (trunk x z height @ canopy x z height)"
  from unique_coords_append_disjoint[OF this trunk_top canopy_centre]
  show False by (simp add: coord_def)
qed

lemma column_in_world:
  assumes "- WORLD_SIZE \<le> x" "x < WORLD_SIZE" "- WORLD_SIZE \<le> z" "z < WORLD_SIZE"
    and "unique_coords (generateWorld noise2D random)"
  shows "unique_coords (generateColumn noise2D x z (random (drawIndex x z)) (random (drawIndex x z + 1)))"
proof -
  let ?G = "\<lambda>x z. generateColumn noise2D x z (random (drawIndex x z)) (random (drawIndex x z + 1))"
  let ?F = "\<lambda>x. concat (map (?G x) [- WORLD_SIZE..WORLD_SIZE - 1])"
  have "?F x \<in> set (map ?F [- WORLD_SIZE..WORLD_SIZE - 1])"
    using assms(1,2) by simp
  then have "distinct (map coord (?F x))"
    using assms(5) unfolding unique_coords_def generateWorld_def
    by (rule distinct_map_concat_elem[rotated])
  moreover have "?G x z \<in> set (map (?G x) [- WORLD_SIZE..WORLD_SIZE - 1])"
    using assms(3,4) by simp
  ultimately show ?thesis
    unfolding unique_coords_def by (rule distinct_map_concat_elem)
qed

text \<open>Any column that grows a tree puts two blocks on one coordinate.\<close>

lemma tree_breaks_uniqueness:
  assumes "- WORLD_SIZE \<le> x" "x < WORLD_SIZE" "- WORLD_SIZE \<le> z" "z < WORLD_SIZE"
    and "columnHeight noise2D x z > 2" and "random (drawIndex x z + 1) > 0.98"
  shows "\<not> unique_coords (generateWorld noise2D random)"
proof
  assume "unique_coords (generateWorld noise2D random)"
  from column_in_world[OF assms(1-4) this]
  have "unique_coords (trunk x z (columnHeight noise2D x z) @ canopy x z (columnHeight noise2D x z))"
    using assms(5,6)
    by (simp add: generateColumn_def treeBlocks_def Let_def unique_coords_def)
  then show False using tree_not_unique by blast
qed

text \<open>
  C1. The claim is that the store holds at most one block per coordinate after the initial
  population and after every add and remove. A removal keeps the invariant, and so does an
  addition by a handler created with the current state (\<open>remove_unique\<close>,
  \<open>handleBlockAdd_current_unique\<close>), but the generator does not establish it: with a flat
  noise field of value 0 (every column has height 3) and every random draw equal to 0.99,
  the generated world holds two blocks on one coordinate.
\<close>

theorem generateWorld_duplicate:
  "\<not> unique_coords (generateWorld (\<lambda>x z. 0) (\<lambda>n. 0.99))"
  by (rule tree_breaks_uniqueness[of 0 0]) (simp_all add: WORLD_SIZE_def columnHeight_def)

section \<open>Properties of the visibility filter\<close>

lemma sqrt_less_8_iff: "sqrt x < 8 \<longleftrightarrow> x < 64"
proof -
  have "sqrt 64 = 8" using real_sqrt_abs[of 8] by simp
  then show ?thesis using real_sqrt_less_iff[of x 64] by simp
qed

lemma visible_iff:
  "distance b p < RENDER_DISTANCE \<longleftrightarrow>
     (block_x b - vx p)\<^sup>2 + (block_y b - vy p)\<^sup>2 + (block_z b - vz p)\<^sup>2 < 64"
  by (simp add: distance_def RENDER_DISTANCE_def sqrt_less_8_iff)

text \<open>
  C4. \<open>visibleBlocks\<close> keeps exactly the blocks of the store whose Euclidean distance to
  the player, over the three axes, is strictly below 8 (equivalently, whose squared distance
  is below 64); a block at distance exactly 8 is left out; and with the player at the origin
  and blocks at distances 7.9, 8 and 8.1, only the block at distance 7.9 is returned.
  Numbers are reals here.
\<close>

theorem visibleBlocks_exact:
  "visibleBlocks blocks playerPos = filter (\<lambda>b. distance b playerPos < 8) blocks
   \<and> (\<forall>b. b \<in> set (visibleBlocks blocks playerPos) \<longleftrightarrow>
          b \<in> set blocks
          \<and> (block_x b - vx playerPos)\<^sup>2 + (block_y b - vy playerPos)\<^sup>2
              + (block_z b - vz playerPos)\<^sup>2 < 8\<^sup>2)
   \<and> (\<forall>b. distance b playerPos = 8 \<longrightarrow> b \<notin> set (visibleBlocks blocks playerPos))
   \<and> distance \<lparr>block_x = 7.9, block_y = 0, block_z = 0, block_type = T1\<rparr> \<lparr>vx = 0, vy = 0, vz = 0\<rparr> = 7.9
   \<and> distance \<lparr>block_x = 8, block_y = 0, block_z = 0, block_type = T2\<rparr> \<lparr>vx = 0, vy = 0, vz = 0\<rparr> = 8
   \<and> distance \<lparr>block_x = 8.1, block_y = 0, block_z = 0, block_type = T3\<rparr> \<lparr>vx = 0, vy = 0, vz = 0\<rparr> = 8.1
   \<and> visibleBlocks [\<lparr>block_x = 7.9, block_y = 0, block_z = 0, block_type = T1\<rparr>,
                     \<lparr>block_x = 8, block_y = 0, block_z = 0, block_type = T2\<rparr>,
                     \<lparr>block_x = 8.1, block_y = 0, block_z = 0, block_type = T3\<rparr>]
        \<lparr>vx = 0, vy = 0, vz = 0\<rparr>
       = [\<lparr>block_x = 7.9, block_y = 0, block_z = 0, block_type = T1\<rparr>]"
proof -
  have a: "visibleBlocks blocks playerPos = filter (\<lambda>b. distance b playerPos < 8) blocks"
    by (simp add: visibleBlocks_def RENDER_DISTANCE_def)
  have b: "b \<in> set (visibleBlocks blocks playerPos) \<longleftrightarrow>
          b \<in> set blocks
          \<and> (block_x b - vx playerPos)\<^sup>2 + (block_y b - vy playerPos)\<^sup>2
              + (block_z b - vz playerPos)\<^sup>2 < 8\<^sup>2" for b
    by (simp add: visibleBlocks_def visible_iff)
  have c: "distance b playerPos = 8 \<Longrightarrow> b \<notin> set (visibleBlocks blocks playerPos)" for b
    by (simp add: a)
  have d: "distance \<lparr>block_x = r, block_y = 0, block_z = 0, block_type = T\<rparr> \<lparr>vx = 0, vy = 0, vz = 0\<rparr> = \<bar>r\<bar>"
    for r T
    by (simp add: distance_def)
  have e: "visibleBlocks [\<lparr>block_x = 7.9, block_y = 0, block_z = 0, block_type = T1\<rparr>,
                     \<lparr>block_x = 8, block_y = 0, block_z = 0, block_type = T2\<rparr>,
                     \<lparr>block_x = 8.1, block_y = 0, block_z = 0, block_type = T3\<rparr>]
        \<lparr>vx = 0, vy = 0, vz = 0\<rparr>
       = [\<lparr>block_x = 7.9, block_y = 0, block_z = 0, block_type = T1\<rparr>]"
    by (simp add: visibleBlocks_def RENDER_DISTANCE_def d)
  show ?thesis using a b c e by (simp add: d)
qed

theorem visibleBlocks_exact_witness:
  "distance \<lparr>block_x = 0, block_y = 8, block_z = 0, block_type = stone\<rparr> \<lparr>vx = 0, vy = 0, vz = 0\<rparr> = 8
   \<and> \<lparr>block_x = 0, block_y = 8, block_z = 0, block_type = stone\<rparr>
       \<notin> set (visibleBlocks [\<lparr>block_x = 0, block_y = 8, block_z = 0, block_type = stone\<rparr>,
                              \<lparr>block_x = 4, block_y = 4, block_z = 5, block_type = dirt\<rparr>]
                \<lparr>vx = 0, vy = 0, vz = 0\<rparr>)
   \<and> \<lparr>block_x = 4, block_y = 4, block_z = 5, block_type = dirt\<rparr>
       \<in> set (visibleBlocks [\<lparr>block_x = 0, block_y = 8, block_z = 0, block_type = stone\<rparr>,
                              \<lparr>block_x = 4, block_y = 4, block_z = 5, block_type = dirt\<rparr>]
                \<lparr>vx = 0, vy = 0, vz = 0\<rparr>)"
proof -
  let ?p = "\<lparr>vx = 0, vy = 0, vz = 0\<rparr>"
  let ?b1 = "\<lparr>block_x = 0, block_y = 8, block_z = 0, block_type = stone\<rparr>"
  let ?b2 = "\<lparr>block_x = 4, block_y = 4, block_z = 5, block_type = dirt\<rparr>"
  have d: "distance ?b1 ?p = 8" by (simp add: distance_def)
  note t = visibleBlocks_exact [of "[?b1, ?b2]" ?p]
  from t d have n1: "?b1 \<notin> set (visibleBlocks [?b1, ?b2] ?p)" by blast
  from t have "\<forall>b. b \<in> set (visibleBlocks [?b1, ?b2] ?p) \<longleftrightarrow>
          b \<in> set [?b1, ?b2] \<and> (block_x b - vx ?p)\<^sup>2 + (block_y b - vy ?p)\<^sup>2 + (block_z b - vz ?p)\<^sup>2 < 8\<^sup>2"
    by blast
  then have "?b2 \<in> set (visibleBlocks [?b1, ?b2] ?p)" by simp
  with n1 d show ?thesis by blast
qed

section \<open>Properties of a generated column\<close>

lemma terrain_spec:
  "terrain x z height =
     map (\<lambda>y. \<lparr>block_x = of_int x, block_y = of_int y, block_z = of_int z,
                block_type = (if y = height then grass
                              else if height - 2 \<le> y \<and> y < height then dirt else stone)\<rparr>)
       [0..height]"
  unfolding terrain_def terrainType_def by (rule map_cong) auto

lemma filter_terrain: "filter isTerrain (terrain x z height) = terrain x z height"
  by (auto simp: terrain_def terrainType_def isTerrain_def)

lemma filter_flower: "filter isTerrain (flowerBlocks x z height r1) = []"
  by (simp add: flowerBlocks_def isTerrain_def)

lemma canopy_type: "b \<in> set (canopy x z height) \<Longrightarrow> block_type b = leaves"
  unfolding canopy_def by (auto simp del: upto_rec_numeral split: if_splits)

lemma trunk_type: "b \<in> set (trunk x z height) \<Longrightarrow> block_type b = wood"
  unfolding trunk_def by auto

lemma filter_tree: "filter isTerrain (treeBlocks x z height r2) = []"
  by (auto simp: treeBlocks_def isTerrain_def filter_empty_conv dest: canopy_type trunk_type)

lemma columnHeight_flat: "columnHeight (\<lambda>x z. 0) x z = 3"
  by (simp add: columnHeight_def)

text \<open>
  C7. The grass, dirt and stone blocks of a generated column are exactly one block for each
  \<open>y\<close> from 0 to the column's height, in this order, typed grass at \<open>y = height\<close>, dirt for
  \<open>height - 2 \<le> y < height\<close> and stone below; there are \<open>height + 1\<close> of them when the height
  is not negative. With noise 0 at column \<open>(0, 0)\<close> the height is 3 and the terrain is stone
  at 0, dirt at 1 and 2, grass at 3, and nothing at 4.
\<close>

theorem terrain_column_shape:
  "filter isTerrain (generateColumn noise2D x z r1 r2)
     = map (\<lambda>y. \<lparr>block_x = of_int x, block_y = of_int y, block_z = of_int z,
                  block_type = (if y = columnHeight noise2D x z then grass
                                else if columnHeight noise2D x z - 2 \<le> y \<and> y < columnHeight noise2D x z
                                     then dirt else stone)\<rparr>)
         [0..columnHeight noise2D x z]
   \<and> (0 \<le> columnHeight noise2D x z \<longrightarrow>
        length (filter isTerrain (generateColumn noise2D x z r1 r2)) = nat (columnHeight noise2D x z + 1))
   \<and> columnHeight (\<lambda>x z. 0) 0 0 = 3
   \<and> filter isTerrain (generateColumn (\<lambda>x z. 0) 0 0 r1 r2)
       = [\<lparr>block_x = 0, block_y = 0, block_z = 0, block_type = stone\<rparr>,
          \<lparr>block_x = 0, block_y = 1, block_z = 0, block_type = dirt\<rparr>,
          \<lparr>block_x = 0, block_y = 2, block_z = 0, block_type = dirt\<rparr>,
          \<lparr>block_x = 0, block_y = 3, block_z = 0, block_type = grass\<rparr>]"
proof -
  have f: "filter isTerrain (generateColumn noise2D x z r1 r2) = terrain x z (columnHeight noise2D x z)"
    for noise2D x z
    by (simp add: generateColumn_def Let_def filter_terrain filter_flower filter_tree)
  have l: "length (terrain x z h) = nat (h + 1)" for h
    by (simp add: terrain_def)
  have e: "terrain 0 0 3
       = [\<lparr>block_x = 0, block_y = 0, block_z = 0, block_type = stone\<rparr>,
          \<lparr>block_x = 0, block_y = 1, block_z = 0, block_type = dirt\<rparr>,
          \<lparr>block_x = 0, block_y = 2, block_z = 0, block_type = dirt\<rparr>,
          \<lparr>block_x = 0, block_y = 3, block_z = 0, block_type = grass\<rparr>]"
    by (simp add: terrain_def terrainType_def upto_rec1)
  show ?thesis
    unfolding f columnHeight_flat using terrain_spec l e by simp
qed

theorem terrain_column_shape_witness:
  "0 \<le> columnHeight (\<lambda>x z. 1 / 4) 2 5
   \<and> length (filter isTerrain (generateColumn (\<lambda>x z. 1 / 4) 2 5 0 0)) = 5"
  using terrain_column_shape [of "\<lambda>x z. 1 / 4" 2 5 0 0]
  by (simp add: columnHeight_def)

lemma height_negative_iff:
  "columnHeight noise2D x z < 0 \<longleftrightarrow> noise2D (of_int x * 0.1) (of_int z * 0.1) < - 0.75"
proof -
  have "columnHeight noise2D x z < 0 \<longleftrightarrow> noise2D (of_int x * 0.1) (of_int z * 0.1) * 4 + 3 < 0"
    unfolding columnHeight_def by (subst floor_less_iff) simp
  also have "\<dots> \<longleftrightarrow> noise2D (of_int x * 0.1) (of_int z * 0.1) < - 0.75"
    by simp linarith
  finally show ?thesis .
qed

lemma empty_column: "columnHeight noise2D x z < 0 \<Longrightarrow> generateColumn noise2D x z r1 r2 = []"
  by (simp add: generateColumn_def Let_def terrain_def flowerBlocks_def treeBlocks_def)

text \<open>
  C10. The height of a column is negative exactly when its noise value is below -0.75, and
  then the iteration for that column emits no block at all, whatever the two random draws
  are; so a generated world can have empty columns inside the square (with noise -1
  everywhere it is empty altogether).
\<close>

theorem negative_height_empty_column:
  "(columnHeight noise2D x z < 0 \<longleftrightarrow> noise2D (of_int x * 0.1) (of_int z * 0.1) < - 0.75)
   \<and> (columnHeight noise2D x z < 0 \<longrightarrow> generateColumn noise2D x z r1 r2 = [])
   \<and> generateWorld (\<lambda>x z. - 1) random = []"
proof -
  have "columnHeight (\<lambda>x z. - 1) x z < 0" for x z by (simp add: columnHeight_def)
  then have "generateWorld (\<lambda>x z. - 1) random = []"
    by (simp add: generateWorld_def empty_column)
  then show ?thesis using height_negative_iff empty_column by blast
qed

theorem negative_height_empty_column_witness:
  "columnHeight (\<lambda>x z. - 0.8) 3 (- 7) < 0 \<and> generateColumn (\<lambda>x z. - 0.8) 3 (- 7) 0.99 0.99 = []"
  using negative_height_empty_column [of "\<lambda>x z. - 0.8" 3 "- 7" "0.99" "0.99"]
  by simp

section \<open>Properties of the player controller\<close>

lemma intent_vz: "vz (intent keys) = (if backward keys then 1 else if forward keys then - 1 else 0)"
  by (simp add: intent_def Let_def)

lemma intent_vx: "vx (intent keys) = (if right keys then 1 else if left keys then - 1 else 0)"
  by (simp add: intent_def Let_def)

lemma tickVelocity_vy:
  "vy (tickVelocity applyEuler keys delta p) =
     (if jump keys \<and> vy (position p) \<le> 5 then 0.2 else vy (velocity p)) - 9.8 * delta * 0.1"
  by (simp add: tickVelocity_def Let_def)

lemma integrate_position_vy:
  "vy (position (integrate v p)) = (if vy (position p) + vy v < 5 then 5 else vy (position p) + vy v)"
  by (simp add: integrate_def vadd_def Let_def)

lemma integrate_velocity_vy:
  "vy (velocity (integrate v p)) = (if vy (position p) + vy v < 5 then 0 else vy v)"
  by (simp add: integrate_def vadd_def Let_def)

text \<open>
  C2, as amended. The flags assign, they do not add: with forward and backward both set the
  z-component of the intent vector is 1 (backward, tested last, wins), and with left and right
  both set the x-component is 1 (right wins). In general each component is decided by the
  last flag of its pair that is set, and is 0 only when neither is.
\<close>

theorem opposite_flags_last_wins:
  "(forward keys \<and> backward keys \<longrightarrow> vz (intent keys) = 1)
   \<and> (left keys \<and> right keys \<longrightarrow> vx (intent keys) = 1)
   \<and> vz (intent keys) = (if backward keys then 1 else if forward keys then - 1 else 0)
   \<and> vx (intent keys) = (if right keys then 1 else if left keys then - 1 else 0)"
  by (simp add: intent_vz intent_vx)

theorem opposite_flags_last_wins_witness:
  "vz (intent \<lparr>forward = True, backward = True, left = True, right = True, jump = False\<rparr>) = 1
   \<and> vx (intent \<lparr>forward = True, backward = True, left = True, right = True, jump = False\<rparr>) = 1"
  using opposite_flags_last_wins
          [of "\<lparr>forward = True, backward = True, left = True, right = True, jump = False\<rparr>"]
  by simp

text \<open>
  The statement with cancellation fails: with forward and backward set (and nothing else)
  the z-component is not 0, before and after normalisation; likewise the x-component with
  left and right set.
\<close>

theorem opposite_flags_counterexample:
  "forward \<lparr>forward = True, backward = True, left = False, right = False, jump = False\<rparr>
   \<and> backward \<lparr>forward = True, backward = True, left = False, right = False, jump = False\<rparr>
   \<and> vz (intent \<lparr>forward = True, backward = True, left = False, right = False, jump = False\<rparr>) \<noteq> 0
   \<and> vz (normalize (intent \<lparr>forward = True, backward = True, left = False, right = False, jump = False\<rparr>)) \<noteq> 0
   \<and> left \<lparr>forward = False, backward = False, left = True, right = True, jump = False\<rparr>
   \<and> right \<lparr>forward = False, backward = False, left = True, right = True, jump = False\<rparr>
   \<and> vx (intent \<lparr>forward = False, backward = False, left = True, right = True, jump = False\<rparr>) \<noteq> 0"
  by (simp add: intent_def normalize_def Let_def)

text \<open>
  C8, as amended. In a tick with the jump flag set and \<open>y \<le> 5\<close>, the vertical velocity is
  set to 0.2 before gravity is subtracted, so the vertical velocity the position is integrated
  with is \<open>0.2 - 9.8 * delta * 0.1\<close>. It is still the vertical velocity at the end of the tick
  when the integrated \<open>y\<close> is at least 5; when the integrated \<open>y\<close> is below 5 the ground
  constraint sets the vertical velocity to 0.
\<close>

theorem jump_velocity:
  assumes "jump keys" and "vy (position p) \<le> 5"
  shows "vy (tickVelocity applyEuler keys delta p) = 0.2 - 9.8 * delta * 0.1
    \<and> (5 \<le> vy (position p) + (0.2 - 9.8 * delta * 0.1) \<longrightarrow>
         vy (velocity (useFrame applyEuler keys delta p)) = 0.2 - 9.8 * delta * 0.1)
    \<and> (vy (position p) + (0.2 - 9.8 * delta * 0.1) < 5 \<longrightarrow>
         vy (velocity (useFrame applyEuler keys delta p)) = 0)"
  using assms by (simp add: useFrame_def integrate_velocity_vy tickVelocity_vy)

theorem jump_velocity_witness:
  "vy (velocity (useFrame id
          \<lparr>forward = False, backward = False, left = False, right = False, jump = True\<rparr> (1 / 60)
          \<lparr>position = \<lparr>vx = 0, vy = 5, vz = 0\<rparr>, velocity = \<lparr>vx = 0, vy = 0, vz = 0\<rparr>\<rparr>))
     = 0.2 - 9.8 * (1 / 60) * 0.1
   \<and> vy (velocity (useFrame id
          \<lparr>forward = False, backward = False, left = False, right = False, jump = True\<rparr> (1 / 4)
          \<lparr>position = \<lparr>vx = 0, vy = 5, vz = 0\<rparr>, velocity = \<lparr>vx = 0, vy = 0, vz = 0\<rparr>\<rparr>))
     = 0"
  using jump_velocity [of "\<lparr>forward = False, backward = False, left = False, right = False, jump = True\<rparr>"
          "\<lparr>position = \<lparr>vx = 0, vy = 5, vz = 0\<rparr>, velocity = \<lparr>vx = 0, vy = 0, vz = 0\<rparr>\<rparr>"
          id "1 / 60"]
        jump_velocity [of "\<lparr>forward = False, backward = False, left = False, right = False, jump = True\<rparr>"
          "\<lparr>position = \<lparr>vx = 0, vy = 5, vz = 0\<rparr>, velocity = \<lparr>vx = 0, vy = 0, vz = 0\<rparr>\<rparr>"
          id "1 / 4"]
  by simp

text \<open>
  The statement for every tick fails on a long frame: standing at \<open>y = 5\<close> with the jump flag
  set and \<open>delta = 1/4\<close>, gravity exceeds the impulse, the integrated \<open>y\<close> is below 5 and the
  tick ends with vertical velocity 0, not \<open>0.2 - 9.8 * delta * 0.1\<close>.
\<close>

theorem jump_velocity_counterexample:
  "jump \<lparr>forward = False, backward = False, left = False, right = False, jump = True\<rparr>
   \<and> vy (position \<lparr>position = \<lparr>vx = 0, vy = 5, vz = 0\<rparr>, velocity = \<lparr>vx = 0, vy = 0, vz = 0\<rparr>\<rparr>) \<le> 5
   \<and> vy (velocity (useFrame id
          \<lparr>forward = False, backward = False, left = False, right = False, jump = True\<rparr> (1 / 4)
          \<lparr>position = \<lparr>vx = 0, vy = 5, vz = 0\<rparr>, velocity = \<lparr>vx = 0, vy = 0, vz = 0\<rparr>\<rparr>))
       \<noteq> 0.2 - 9.8 * (1 / 4) * 0.1"
  by (simp add: useFrame_def integrate_velocity_vy tickVelocity_vy)

text \<open>
  C9. After a tick the player's \<open>y\<close> is at least 5: when the integration gives \<open>y < 5\<close>, the
  position's \<open>y\<close> becomes exactly 5 and the vertical velocity 0. The tick takes the keys, the
  frame time, the camera rotation and the player, and no block store. Starting at \<open>y = 5\<close> with
  vertical velocity 0, no jump and \<open>delta = 1/60\<close>, the resulting \<open>y\<close> is 5.
\<close>

theorem ground_clamp:
  "5 \<le> vy (position (useFrame applyEuler keys delta p))
   \<and> (vy (vadd (position p) (tickVelocity applyEuler keys delta p)) < 5 \<longrightarrow>
        vy (position (useFrame applyEuler keys delta p)) = 5
        \<and> vy (velocity (useFrame applyEuler keys delta p)) = 0)
   \<and> vy (position (useFrame applyEuler
          \<lparr>forward = f, backward = b, left = l, right = r, jump = False\<rparr> (1 / 60)
          \<lparr>position = \<lparr>vx = px, vy = 5, vz = pz\<rparr>, velocity = \<lparr>vx = wx, vy = 0, vz = wz\<rparr>\<rparr>)) = 5"
  by (simp add: useFrame_def integrate_position_vy integrate_velocity_vy tickVelocity_vy vadd_def)

theorem ground_clamp_witness:
  "vy (vadd (position \<lparr>position = \<lparr>vx = 0, vy = 5, vz = 0\<rparr>, velocity = \<lparr>vx = 0, vy = 0, vz = 0\<rparr>\<rparr>)
         (tickVelocity id \<lparr>forward = True, backward = False, left = False, right = False, jump = False\<rparr>
            (1 / 60) \<lparr>position = \<lparr>vx = 0, vy = 5, vz = 0\<rparr>, velocity = \<lparr>vx = 0, vy = 0, vz = 0\<rparr>\<rparr>)) < 5
   \<and> vy (position (useFrame id
          \<lparr>forward = True, backward = False, left = False, right = False, jump = False\<rparr> (1 / 60)
          \<lparr>position = \<lparr>vx = 0, vy = 5, vz = 0\<rparr>, velocity = \<lparr>vx = 0, vy = 0, vz = 0\<rparr>\<rparr>)) = 5
   \<and> vy (velocity (useFrame id
          \<lparr>forward = True, backward = False, left = False, right = False, jump = False\<rparr> (1 / 60)
          \<lparr>position = \<lparr>vx = 0, vy = 5, vz = 0\<rparr>, velocity = \<lparr>vx = 0, vy = 0, vz = 0\<rparr>\<rparr>)) = 0"
proof -
  let ?k = "\<lparr>forward = True, backward = False, left = False, right = False, jump = False\<rparr>"
  let ?p = "\<lparr>position = \<lparr>vx = 0, vy = 5, vz = 0\<rparr>, velocity = \<lparr>vx = 0, vy = 0, vz = 0\<rparr>\<rparr>"
  have h: "vy (vadd (position ?p) (tickVelocity id ?k (1 / 60) ?p)) < 5"
    by (simp add: vadd_def tickVelocity_vy)
  from ground_clamp [of id ?k "1 / 60" ?p] h show ?thesis by blast
qed

section \<open>Properties of the selection\<close>








end
